theory Spec2Isabelle
  imports Main
begin

section \<open>Go string primitives used by the bot\<close>

text \<open>
  A Go \<^verbatim>\<open>string\<close> is a byte sequence; it is modelled as \<^typ>\<open>string\<close> (a list of
  8-bit characters), so \<^verbatim>\<open>len(s)\<close> is \<^term>\<open>length s\<close> and \<^verbatim>\<open>s[i:]\<close> is
  \<^term>\<open>drop i s\<close>.
\<close>

text \<open>\<^verbatim>\<open>strings.ReplaceAll(s, c, "")\<close> for a one-byte \<^verbatim>\<open>c\<close>: every occurrence is deleted.\<close>

definition ReplaceAll_del :: "string \<Rightarrow> char \<Rightarrow> string" where
  "ReplaceAll_del s c = filter (\<lambda>x. x \<noteq> c) s"

text \<open>\<^verbatim>\<open>strings.HasPrefix(s, p)\<close>.\<close>

definition HasPrefix :: "string \<Rightarrow> string \<Rightarrow> bool" where
  "HasPrefix s p = (take (length p) s = p)"

text \<open>\<^verbatim>\<open>strings.Contains(s, sub)\<close>: \<^verbatim>\<open>sub\<close> occurs in \<^verbatim>\<open>s\<close> as a contiguous block.\<close>

fun Contains :: "string \<Rightarrow> string \<Rightarrow> bool" where
  "Contains [] sub = (sub = [])"
| "Contains (c # s) sub = (HasPrefix (c # s) sub \<or> Contains s sub)"

section \<open>Phone number canonicalizer (package whatsapp)\<close>

text \<open>
  \<^verbatim>\<open>NormalizePhoneNumber\<close>: the five \<^verbatim>\<open>ReplaceAll\<close> calls, then the two \<^verbatim>\<open>if\<close>
  statements in sequence. The country code \<^verbatim>\<open>972\<close> is a literal of the source.
\<close>

definition NormalizePhoneNumber :: "string \<Rightarrow> string" where
  "NormalizePhoneNumber phoneNumber =
     (let p0 = ReplaceAll_del phoneNumber (CHR ''+'');
          p1 = ReplaceAll_del p0 (CHR '' '');
          p2 = ReplaceAll_del p1 (CHR ''-'');
          p3 = ReplaceAll_del p2 (CHR ''('');
          p4 = ReplaceAll_del p3 (CHR '')'');
          p5 = (if HasPrefix p4 ''0'' \<and> length p4 = 10 then ''972'' @ drop 1 p4 else p4);
          p6 = (if HasPrefix p5 ''9720'' then ''972'' @ drop 4 p5 else p5)
      in p6)"

text \<open>Strings made of decimal digits only.\<close>

definition isDigit :: "char \<Rightarrow> bool" where
  "isDigit c = (c \<in> set ''0123456789'')"

definition digits :: "string \<Rightarrow> bool" where
  "digits s = list_all isDigit s"

text \<open>
  The forms of a phone number that the specification names. A number in canonical form
  is a digit string in international format: no symbols, no trunk zero at the front, no
  zero behind the country code 972. The forms near to it are the ones the rules of the
  canonicalizer are written for: the country code followed by one redundant zero; the
  local form, ten digits whose leading zero stands for the country code (of a number
  that is then canonical or has the redundant zero); and each of these, or a canonical
  number, written with the symbols \<^verbatim>\<open>+\<close>, space, \<^verbatim>\<open>-\<close>, \<^verbatim>\<open>(\<close> and \<^verbatim>\<open>)\<close>.
\<close>

definition canonical_form :: "string \<Rightarrow> bool" where
  "canonical_form p = (digits p \<and> \<not> HasPrefix p ''0'' \<and> \<not> HasPrefix p ''9720'')"

definition redundant_zero_form :: "string \<Rightarrow> bool" where
  "redundant_zero_form p = (HasPrefix p ''9720'' \<and> canonical_form (''972'' @ drop 4 p))"

definition local_form :: "string \<Rightarrow> bool" where
  "local_form p =
     (length p = 10 \<and> HasPrefix p ''0'' \<and>
      (canonical_form (''972'' @ drop 1 p) \<or> redundant_zero_form (''972'' @ drop 1 p)))"

definition strip_symbols :: "string \<Rightarrow> string" where
  "strip_symbols x = filter (\<lambda>c. c \<notin> set ''+ -()'') x"

definition near_canonical_form :: "string \<Rightarrow> bool" where
  "near_canonical_form x =
     (canonical_form (strip_symbols x) \<or> redundant_zero_form (strip_symbols x) \<or>
      local_form (strip_symbols x))"

section \<open>Guest records (package models)\<close>

text \<open>
  \<^verbatim>\<open>RSVPStatus\<close> is a Go string type with four named constants; any other string,
  the empty one included, is a value of the type as well.
\<close>

type_synonym RSVPStatus = string

definition RSVPPending :: RSVPStatus where "RSVPPending = ''pending''"
definition RSVPAccepted :: RSVPStatus where "RSVPAccepted = ''accepted''"
definition RSVPDeclined :: RSVPStatus where "RSVPDeclined = ''declined''"
definition RSVPNotInvited :: RSVPStatus where "RSVPNotInvited = ''not_invited''"

text \<open>
  \<^verbatim>\<open>time.Time\<close> is an instant counted from the zero \<^verbatim>\<open>Time\<close>: \<open>0\<close> is the zero value
  and \<^verbatim>\<open>IsZero\<close> tests for it. The result of \<^verbatim>\<open>time.Now()\<close> is an input of every
  operation that reads the clock.
\<close>

type_synonym time = nat

definition IsZero :: "time \<Rightarrow> bool" where
  "IsZero t = (t = 0)"

record Guest =
  PhoneNumber :: string
  Name :: string
  RSVPStatus :: RSVPStatus
  RSVPDate :: time
  InvitedDate :: time
  Notes :: string

section \<open>Errors\<close>

text \<open>
  Every \<^verbatim>\<open>error\<close> value the modelled functions return; \<^verbatim>\<open>fmt.Errorf("...: %w", err)\<close>
  is a constructor around the wrapped error.
\<close>

datatype error =
    GuestNotFound
  | FailedToCreateDirectory
  | WriteFileError
  | FailedToVerifyNumber
  | NumberNotRegistered string
  | FailedToSendMessage
  | FailedToUpdateRSVP error
  | FailedToSendConfirmation error
  | FailedToAddGuest error
  | FailedToSendInvitation error

section \<open>Guest record store (package storage)\<close>

text \<open>
  The \<^verbatim>\<open>Storage\<close> struct holds the slice \<^verbatim>\<open>guests\<close> and the path \<^verbatim>\<open>file\<close>; the
  mutex is not modelled, every operation runs alone. The field \<open>disk\<close> is what the
  file at that path holds: nothing, the guest list of the last successful
  \<^verbatim>\<open>os.WriteFile\<close>, or whatever a failed write left there.
\<close>

datatype file_content = NoFile | Written "Guest list" | Damaged

record Storage =
  guests :: "Guest list"
  "file" :: string
  disk :: file_content

text \<open>
  What the file system does to one \<^verbatim>\<open>Save\<close>: it succeeds, \<^verbatim>\<open>os.MkdirAll\<close> fails, or
  \<^verbatim>\<open>os.WriteFile\<close> fails and leaves the given content behind. \<^verbatim>\<open>json.MarshalIndent\<close>
  of a guest slice is taken to succeed.
\<close>

datatype write_outcome = WriteOk | MkdirAllFails | WriteFileFails file_content

definition Save :: "write_outcome \<Rightarrow> Storage \<Rightarrow> error option \<times> Storage" where
  "Save io s =
     (case io of
        WriteOk \<Rightarrow> (None, s\<lparr>disk := Written (guests s)\<rparr>)
      | MkdirAllFails \<Rightarrow> (Some FailedToCreateDirectory, s)
      | WriteFileFails c \<Rightarrow> (Some WriteFileError, s\<lparr>disk := c\<rparr>))"

text \<open>
  The loop of \<^verbatim>\<open>AddGuest\<close> over \<^verbatim>\<open>s.guests\<close>: at the first record with the incoming
  phone number the incoming guest takes that record's \<^verbatim>\<open>InvitedDate\<close>, takes its
  \<^verbatim>\<open>RSVPStatus\<close> when the incoming one is \<^verbatim>\<open>RSVPNotInvited\<close>, and is stored at that
  index. \<open>None\<close> when the loop ends without a match.
\<close>

fun AddGuest_existing :: "Guest \<Rightarrow> Guest list \<Rightarrow> Guest list option" where
  "AddGuest_existing guest [] = None"
| "AddGuest_existing guest (g # gs) =
     (if PhoneNumber g = PhoneNumber guest then
        (let guest1 = guest\<lparr>InvitedDate := InvitedDate g\<rparr>;
             guest2 = (if RSVPStatus guest1 = RSVPNotInvited
                       then guest1\<lparr>RSVPStatus := RSVPStatus g\<rparr> else guest1)
         in Some (guest2 # gs))
      else map_option ((#) g) (AddGuest_existing guest gs))"

text \<open>
  \<^verbatim>\<open>AddGuest\<close>: the merge above when the phone number is known; otherwise the defaults
  for an unset \<^verbatim>\<open>InvitedDate\<close> and an empty status, and \<^verbatim>\<open>append\<close>. Both paths end in
  \<^verbatim>\<open>Save\<close>.
\<close>

definition AddGuest :: "time \<Rightarrow> write_outcome \<Rightarrow> Guest \<Rightarrow> Storage \<Rightarrow> error option \<times> Storage" where
  "AddGuest tnow io guest s =
     (case AddGuest_existing guest (guests s) of
        Some gs \<Rightarrow> Save io (s\<lparr>guests := gs\<rparr>)
      | None \<Rightarrow>
          (let guest1 = (if IsZero (InvitedDate guest) then guest\<lparr>InvitedDate := tnow\<rparr> else guest);
               guest2 = (if RSVPStatus guest1 = [] then guest1\<lparr>RSVPStatus := RSVPPending\<rparr>
                         else guest1)
           in Save io (s\<lparr>guests := guests s @ [guest2]\<rparr>)))"

text \<open>\<^verbatim>\<open>GetGuest\<close>: a copy of the first record with the phone number, or the error.\<close>

definition GetGuest :: "string \<Rightarrow> Storage \<Rightarrow> error + Guest" where
  "GetGuest phoneNumber s =
     (case find (\<lambda>g. PhoneNumber g = phoneNumber) (guests s) of
        Some g \<Rightarrow> Inr g
      | None \<Rightarrow> Inl GuestNotFound)"

text \<open>
  The loop of \<^verbatim>\<open>UpdateRSVP\<close>: the first record with the phone number gets the status and
  the clock value, and the notes when they are not empty.
\<close>

fun UpdateRSVP_existing :: "time \<Rightarrow> string \<Rightarrow> RSVPStatus \<Rightarrow> string \<Rightarrow> Guest list \<Rightarrow> Guest list option" where
  "UpdateRSVP_existing tnow phoneNumber status notes [] = None"
| "UpdateRSVP_existing tnow phoneNumber status notes (g # gs) =
     (if PhoneNumber g = phoneNumber then
        (let g1 = g\<lparr>RSVPStatus := status\<rparr>;
             g2 = g1\<lparr>RSVPDate := tnow\<rparr>;
             g3 = (if notes \<noteq> [] then g2\<lparr>Notes := notes\<rparr> else g2)
         in Some (g3 # gs))
      else map_option ((#) g) (UpdateRSVP_existing tnow phoneNumber status notes gs))"

definition UpdateRSVP :: "time \<Rightarrow> write_outcome \<Rightarrow> string \<Rightarrow> RSVPStatus \<Rightarrow> string \<Rightarrow> Storage \<Rightarrow> error option \<times> Storage" where
  "UpdateRSVP tnow io phoneNumber status notes s =
     (case UpdateRSVP_existing tnow phoneNumber status notes (guests s) of
        Some gs \<Rightarrow> Save io (s\<lparr>guests := gs\<rparr>)
      | None \<Rightarrow> (Some GuestNotFound, s))"

section \<open>Messaging service (package whatsapp)\<close>

text \<open>
  The WhatsApp client is outside the repository. The model keeps the list of calls made
  to it, and takes as input what the network answers to one send: the lookup
  \<^verbatim>\<open>IsOnWhatsApp\<close> fails, the number is not registered (an empty answer or
  \<^verbatim>\<open>IsIn = false\<close>), or it is registered under a JID and the client's \<^verbatim>\<open>SendMessage\<close>
  then succeeds or not.
\<close>

datatype wa_call = IsOnWhatsApp string | ClientSendMessage string string

datatype wa_outcome = VerifyFails | NotOnWhatsApp | OnWhatsApp string bool

text \<open>
  The body shared by \<^verbatim>\<open>Service.SendMessage\<close> and \<^verbatim>\<open>Service.SendInvitation\<close> after the
  phone number is normalised: verify, then send to the JID of the answer.
\<close>

definition deliver :: "wa_outcome \<Rightarrow> string \<Rightarrow> string \<Rightarrow> wa_call list \<Rightarrow> error option \<times> wa_call list" where
  "deliver net phoneNumber message cs =
     (let cs1 = cs @ [IsOnWhatsApp phoneNumber] in
      case net of
        VerifyFails \<Rightarrow> (Some FailedToVerifyNumber, cs1)
      | NotOnWhatsApp \<Rightarrow> (Some (NumberNotRegistered phoneNumber), cs1)
      | OnWhatsApp jid ok \<Rightarrow>
          (if ok then None else Some FailedToSendMessage, cs1 @ [ClientSendMessage jid message]))"

definition Service_SendMessage :: "wa_outcome \<Rightarrow> string \<Rightarrow> string \<Rightarrow> wa_call list \<Rightarrow> error option \<times> wa_call list" where
  "Service_SendMessage net phoneNumber message cs =
     deliver net (NormalizePhoneNumber phoneNumber) message cs"

text \<open>The emoji of the message texts, as their UTF-8 bytes.\<close>

definition party_popper :: string where "party_popper = [CHR 0xF0, CHR 0x9F, CHR 0x8E, CHR 0x89]"
definition two_hearts :: string where "two_hearts = [CHR 0xF0, CHR 0x9F, CHR 0x92, CHR 0x95]"
definition calendar :: string where "calendar = [CHR 0xF0, CHR 0x9F, CHR 0x93, CHR 0x85]"
definition round_pushpin :: string where "round_pushpin = [CHR 0xF0, CHR 0x9F, CHR 0x93, CHR 0x8D]"
definition check_mark :: string where "check_mark = [CHR 0xE2, CHR 0x9C, CHR 0x85]"
definition cross_mark :: string where "cross_mark = [CHR 0xE2, CHR 0x9D, CHR 0x8C]"

definition invitation_text :: "string \<Rightarrow> string \<Rightarrow> string \<Rightarrow> string \<Rightarrow> string \<Rightarrow> string" where
  "invitation_text guestName brideName groomName weddingDate weddingLocation =
     party_popper @ '' *Wedding Invitation*\<newline>\<newline>'' @
     ''Dear '' @ guestName @ '',\<newline>\<newline>'' @
     ''You are cordially invited to celebrate the wedding of\<newline>\<newline>'' @
     ''*'' @ brideName @ ''* & *'' @ groomName @ ''*\<newline>\<newline>'' @
     calendar @ '' Date: '' @ weddingDate @ ''\<newline>'' @
     round_pushpin @ '' Location: '' @ weddingLocation @ ''\<newline>\<newline>'' @
     ''Please confirm your attendance by selecting one of the options below.''"

definition reply_instructions :: string where
  "reply_instructions =
     ''\<newline>\<newline>Reply with:\<newline>'' @ check_mark @ '' *YES* to accept\<newline>'' @
     cross_mark @ '' *NO* to decline''"

definition Service_SendInvitation :: "wa_outcome \<Rightarrow> string \<Rightarrow> string \<Rightarrow> string \<Rightarrow> string \<Rightarrow> string \<Rightarrow> string \<Rightarrow> wa_call list \<Rightarrow> error option \<times> wa_call list" where
  "Service_SendInvitation net phoneNumber guestName weddingDate weddingLocation brideName groomName cs =
     deliver net (NormalizePhoneNumber phoneNumber)
       (invitation_text guestName brideName groomName weddingDate weddingLocation @ reply_instructions) cs"

text \<open>
  \<^verbatim>\<open>events.Message\<close>, the part the bot reads: \<^verbatim>\<open>Info.IsFromMe\<close>, the text of
  \<^verbatim>\<open>Info.Sender.String()\<close>, and the pointer \<^verbatim>\<open>Message\<close> (\<open>None\<close> for \<^verbatim>\<open>nil\<close>) with its
  optional \<^verbatim>\<open>Conversation\<close>.
\<close>

record waMessage =
  Conversation :: "string option"

record events_Message =
  Info_IsFromMe :: bool
  Info_Sender :: string
  Message :: "waMessage option"

text \<open>\<^verbatim>\<open>GetConversation\<close> is nil-safe and gives the empty string when there is no text.\<close>

definition GetConversation :: "waMessage option \<Rightarrow> string" where
  "GetConversation m =
     (case m of
        None \<Rightarrow> []
      | Some x \<Rightarrow> (case Conversation x of None \<Rightarrow> [] | Some t \<Rightarrow> t))"

section \<open>RSVP handler (package handler)\<close>

record Config =
  WeddingDate :: string
  WeddingLocation :: string
  BrideName :: string
  GroomName :: string

text \<open>
  \<^verbatim>\<open>strings.ToLower\<close> and \<^verbatim>\<open>strings.TrimSpace\<close> belong to the Go standard library, not
  to the repository, and work on Unicode text. The handler takes the two functions as a
  parameter, so that what is proved about it holds for the library's functions whatever
  they do to a text.
\<close>

record Strings =
  ToLower :: "string \<Rightarrow> string"
  TrimSpace :: "string \<Rightarrow> string"

text \<open>
  The two functions on ASCII text, where the library lower-cases the letters \<^verbatim>\<open>A\<close> to
  \<^verbatim>\<open>Z\<close> and trims the six ASCII white-space bytes from both ends. They stand for the
  library in the examples, whose texts are ASCII.
\<close>

definition toLower_byte :: "char \<Rightarrow> char" where
  "toLower_byte c =
     (let n = (of_char c :: nat) in if 65 \<le> n \<and> n \<le> 90 then char_of (n + 32) else c)"

definition isSpace :: "char \<Rightarrow> bool" where
  "isSpace c = ((of_char c :: nat) \<in> {9, 10, 11, 12, 13, 32})"

definition ascii_strings :: Strings where
  "ascii_strings =
     \<lparr>ToLower = map toLower_byte,
      TrimSpace = (\<lambda>s. rev (dropWhile isSpace (rev (dropWhile isSpace s))))\<rparr>"

text \<open>\<^verbatim>\<open>containsAny\<close>: the first keyword found in the text ends the loop.\<close>

fun containsAny :: "string \<Rightarrow> string list \<Rightarrow> bool" where
  "containsAny text [] = False"
| "containsAny text (keyword # keywords) =
     (if Contains text keyword then True else containsAny text keywords)"

definition accept_keywords :: "string list" where
  "accept_keywords =
     [''yes'', ''yep'', ''yeah'', ''accept'', ''accepting'', ''attending'', ''coming'',
      ''will come'', ''will be there'', check_mark]"

definition decline_keywords :: "string list" where
  "decline_keywords =
     [''no'', ''nope'', ''decline'', ''declining'', ''not coming'', ''can't come'',
      ''won't come'', ''can't make it'', cross_mark]"

definition accept_message :: "Config \<Rightarrow> string" where
  "accept_message cfg =
     party_popper @ '' Wonderful! We're so excited to celebrate with you!\<newline>\<newline>'' @
     ''We've confirmed your attendance for the wedding of '' @ BrideName cfg @ '' & '' @
     GroomName cfg @ '' on '' @ WeddingDate cfg @ ''.\<newline>\<newline>'' @
     ''See you there! '' @ two_hearts"

definition decline_message :: "Config \<Rightarrow> string" where
  "decline_message cfg =
     ''Thank you for letting us know. We're sorry you won't be able to join us for the wedding of '' @
     BrideName cfg @ '' & '' @ GroomName cfg @ ''.\<newline>\<newline>'' @
     ''We'll miss you! '' @ two_hearts"

text \<open>
  The \<^verbatim>\<open>if\<close>/\<^verbatim>\<open>else if\<close>/\<^verbatim>\<open>else\<close> chain of \<^verbatim>\<open>HandleMessage\<close> on the lower-cased, trimmed
  text: the new status with the confirmation text, or \<open>None\<close> for the branch that
  returns without doing anything.
\<close>

definition rsvpResponse :: "Config \<Rightarrow> string \<Rightarrow> (RSVPStatus \<times> string) option" where
  "rsvpResponse cfg text =
     (if containsAny text accept_keywords then Some (RSVPAccepted, accept_message cfg)
      else if containsAny text decline_keywords then Some (RSVPDeclined, decline_message cfg)
      else None)"

text \<open>\<^verbatim>\<open>strings.Split(sender, "@")[0]\<close>: the part of the sender before the first \<^verbatim>\<open>@\<close>.\<close>

definition before_at :: "string \<Rightarrow> string" where
  "before_at sender = takeWhile (\<lambda>c. c \<noteq> CHR ''@'') sender"

text \<open>
  The sender's phone number as \<^verbatim>\<open>HandleMessage\<close> computes it: the part before the
  \<^verbatim>\<open>@\<close>, without \<^verbatim>\<open>+\<close> and spaces. \<^verbatim>\<open>NormalizePhoneNumber\<close> is not called here.
\<close>

definition senderPhoneNumber :: "string \<Rightarrow> string" where
  "senderPhoneNumber sender =
     ReplaceAll_del (ReplaceAll_del (before_at sender) (CHR ''+'')) (CHR '' '')"

text \<open>
  The handler works on the store and on the messaging service; both make up the state.
  One operation reads the clock, saves and sends at most once each: the environment
  gives the clock value and the two outcomes.
\<close>

record World =
  storage :: Storage
  calls :: "wa_call list"

record Env =
  env_now :: time
  env_save :: write_outcome
  env_net :: wa_outcome

definition HandleMessage :: "Strings \<Rightarrow> Config \<Rightarrow> Env \<Rightarrow> events_Message \<Rightarrow> World \<Rightarrow> error option \<times> World" where
  "HandleMessage lib cfg env msg w =
     (if Message msg = None then (None, w)
      else
        let text = GetConversation (Message msg) in
        if text = [] then (None, w)
        else
          let phoneNumber = senderPhoneNumber (Info_Sender msg) in
          case GetGuest phoneNumber (storage w) of
            Inl err \<Rightarrow> (None, w)
          | Inr g \<Rightarrow>
              (case rsvpResponse cfg (ToLower lib (TrimSpace lib text)) of
                 None \<Rightarrow> (None, w)
               | Some (newStatus, responseMessage) \<Rightarrow>
                   (case UpdateRSVP (env_now env) (env_save env) phoneNumber newStatus [] (storage w) of
                      (Some err, s) \<Rightarrow> (Some (FailedToUpdateRSVP err), w\<lparr>storage := s\<rparr>)
                    | (None, s) \<Rightarrow>
                        (case Service_SendMessage (env_net env) phoneNumber responseMessage (calls w) of
                           (Some err, cs) \<Rightarrow>
                             (Some (FailedToSendConfirmation err), \<lparr>storage = s, calls = cs\<rparr>)
                         | (None, cs) \<Rightarrow> (None, \<lparr>storage = s, calls = cs\<rparr>)))))"

text \<open>
  \<^verbatim>\<open>SendInvitation\<close>: the guest literal has the normalised number, the name and
  \<^verbatim>\<open>RSVPPending\<close>; its other fields are the zero values.
\<close>

definition SendInvitation :: "Config \<Rightarrow> Env \<Rightarrow> string \<Rightarrow> string \<Rightarrow> World \<Rightarrow> error option \<times> World" where
  "SendInvitation cfg env phoneNumber guestName w =
     (let normalizedNumber = NormalizePhoneNumber phoneNumber;
          guest = \<lparr>PhoneNumber = normalizedNumber, Name = guestName, RSVPStatus = RSVPPending,
                   RSVPDate = 0, InvitedDate = 0, Notes = []\<rparr>
      in case AddGuest (env_now env) (env_save env) guest (storage w) of
           (Some err, s) \<Rightarrow> (Some (FailedToAddGuest err), w\<lparr>storage := s\<rparr>)
         | (None, s) \<Rightarrow>
             (case Service_SendInvitation (env_net env) phoneNumber guestName (WeddingDate cfg)
                     (WeddingLocation cfg) (BrideName cfg) (GroomName cfg) (calls w) of
                (Some err, cs) \<Rightarrow> (Some (FailedToSendInvitation err), \<lparr>storage = s, calls = cs\<rparr>)
              | (None, cs) \<Rightarrow> (None, \<lparr>storage = s, calls = cs\<rparr>)))"

text \<open>
  \<^verbatim>\<open>Service.handleMessage\<close>, the entry point of every inbound message event: messages of
  the bot's own account are skipped, the others go to the registered handler when there
  is one (its error is logged, not returned).
\<close>

definition handleMessage :: "(events_Message \<Rightarrow> World \<Rightarrow> error option \<times> World) option \<Rightarrow> events_Message \<Rightarrow> World \<Rightarrow> World" where
  "handleMessage messageHandler msg w =
     (if Info_IsFromMe msg then w
      else case messageHandler of
             Some h \<Rightarrow> snd (h msg w)
           | None \<Rightarrow> w)"

section \<open>Sequences of operations\<close>

text \<open>
  The two ways the program changes its state while it runs: the operator sends an
  invitation (\<^verbatim>\<open>SendInvitation\<close> from the menu), or a message event arrives at
  \<^verbatim>\<open>Service.handleMessage\<close>, whose handler \<^verbatim>\<open>main\<close> sets to \<^verbatim>\<open>HandleMessage\<close>. Each event
  carries its own environment.
\<close>

datatype event = Invite Env string string | Inbound Env events_Message

fun step :: "Strings \<Rightarrow> Config \<Rightarrow> event \<Rightarrow> World \<Rightarrow> World" where
  "step lib cfg (Invite env phoneNumber guestName) w =
     snd (SendInvitation cfg env phoneNumber guestName w)"
| "step lib cfg (Inbound env msg) w = handleMessage (Some (HandleMessage lib cfg env)) msg w"

definition run :: "Strings \<Rightarrow> Config \<Rightarrow> event list \<Rightarrow> World \<Rightarrow> World" where
  "run lib cfg evs w = fold (step lib cfg) evs w"

text \<open>Every record of the store has one of the three statuses of an invited guest.\<close>

definition statuses_valid :: "World \<Rightarrow> bool" where
  "statuses_valid w =
     list_all (\<lambda>g. RSVPStatus g \<in> {RSVPPending, RSVPAccepted, RSVPDeclined}) (guests (storage w))"

section \<open>Example states\<close>

text \<open>
  The configuration of \<^verbatim>\<open>LoadConfig\<close> without environment variables, an environment where
  saving and sending succeed, the store of \<^verbatim>\<open>NewStorage\<close> when there is no file yet, and
  a store holding one guest who was invited at time 3.
\<close>

definition example_config :: Config where
  "example_config =
     \<lparr>WeddingDate = ''Saturday, January 1, 2025'', WeddingLocation = ''Venue TBD'',
      BrideName = ''Bride'', GroomName = ''Groom''\<rparr>"

definition example_env :: Env where
  "example_env =
     \<lparr>env_now = 9, env_save = WriteOk, env_net = OnWhatsApp ''972501112222@s.whatsapp.net'' True\<rparr>"

definition empty_world :: World where
  "empty_world =
     \<lparr>storage = \<lparr>guests = [], file = ''data/guests.json'', disk = NoFile\<rparr>, calls = []\<rparr>"

definition dana :: "RSVPStatus \<Rightarrow> Guest" where
  "dana st =
     \<lparr>PhoneNumber = ''972501112222'', Name = ''Dana'', RSVPStatus = st, RSVPDate = 5,
      InvitedDate = 3, Notes = ''vegetarian''\<rparr>"

definition dana_world :: "RSVPStatus \<Rightarrow> World" where
  "dana_world st =
     \<lparr>storage = \<lparr>guests = [dana st], file = ''data/guests.json'', disk = Written [dana st]\<rparr>,
      calls = []\<rparr>"

definition reply :: "string \<Rightarrow> events_Message" where
  "reply t =
     \<lparr>Info_IsFromMe = False, Info_Sender = ''972501112222@s.whatsapp.net'',
      Message = Some \<lparr>Conversation = Some t\<rparr>\<rparr>"

section \<open>Properties of the canonicalizer\<close>

lemma ReplaceAll_del_absent: "c \<notin> set s \<Longrightarrow> ReplaceAll_del s c = s"
  by (induction s) (auto simp: ReplaceAll_del_def)

lemma NormalizePhoneNumber_symbol_free:
  "c \<in> {CHR ''+'', CHR '' '', CHR ''-'', CHR ''('', CHR '')''} \<Longrightarrow> c \<notin> set (NormalizePhoneNumber x)"
  by (auto simp: NormalizePhoneNumber_def Let_def ReplaceAll_del_def dest!: in_set_dropD)

text \<open>On a string without the five stripped symbols only the two country-code rules act.\<close>

lemma NormalizePhoneNumber_clean:
  assumes "set s \<inter> {CHR ''+'', CHR '' '', CHR ''-'', CHR ''('', CHR '')''} = {}"
  shows "NormalizePhoneNumber s =
     (let p5 = (if HasPrefix s ''0'' \<and> length s = 10 then ''972'' @ drop 1 s else s)
      in if HasPrefix p5 ''9720'' then ''972'' @ drop 4 p5 else p5)"
proof -
  have "ReplaceAll_del s c = s"
    if "c \<in> {CHR ''+'', CHR '' '', CHR ''-'', CHR ''('', CHR '')''}" for c
    using that assms by (intro ReplaceAll_del_absent) blast
  then show ?thesis
    by (simp add: NormalizePhoneNumber_def)
qed

lemma isDigit_not_symbol:
  "isDigit c \<Longrightarrow> c \<notin> {CHR ''+'', CHR '' '', CHR ''-'', CHR ''('', CHR '')''}"
  by (auto simp: isDigit_def)

lemma digits_clean:
  assumes "digits s"
  shows "set s \<inter> {CHR ''+'', CHR '' '', CHR ''-'', CHR ''('', CHR '')''} = {}"
proof -
  have "\<forall>c\<in>set s. isDigit c"
    using assms by (simp add: digits_def list_all_iff)
  then show ?thesis
    using isDigit_not_symbol by blast
qed

lemma ten_chars:
  assumes "length x = 10"
  obtains a b r where "x = a # b # r"
  using assms by (metis Suc_length_conv numeral_eq_Suc pred_numeral_simps(2))

lemma NormalizePhoneNumber_local:
  assumes "digits x" "length x = 10" "HasPrefix x ''0''" "\<not> HasPrefix x ''00''"
  shows "NormalizePhoneNumber x = ''972'' @ drop 1 x"
proof -
  obtain a b r where x: "x = a # b # r"
    using assms(2) by (rule ten_chars)
  with assms(3,4) have "a = CHR ''0''" "b \<noteq> CHR ''0''"
    by (auto simp: HasPrefix_def)
  with x assms(1,2) show ?thesis
    by (simp add: NormalizePhoneNumber_clean [OF digits_clean] HasPrefix_def)
qed

text \<open>A second zero behind the leading one is taken for the zero after the country code.\<close>

lemma NormalizePhoneNumber_local_00:
  assumes "digits x" "length x = 10" "HasPrefix x ''00''"
  shows "NormalizePhoneNumber x = ''972'' @ drop 2 x"
proof -
  obtain a b r where x: "x = a # b # r"
    using assms(2) by (rule ten_chars)
  with assms(3) have "a = CHR ''0''" "b = CHR ''0''"
    by (auto simp: HasPrefix_def)
  with x assms(1,2) show ?thesis
    by (simp add: NormalizePhoneNumber_clean [OF digits_clean] HasPrefix_def)
qed

lemma NormalizePhoneNumber_redundant_zero:
  assumes "digits r"
  shows "NormalizePhoneNumber (''9720'' @ r) = ''972'' @ r"
proof -
  have "digits (''9720'' @ r)"
    using assms by (simp add: digits_def isDigit_def)
  then show ?thesis
    by (simp add: NormalizePhoneNumber_clean [OF digits_clean] HasPrefix_def)
qed

text \<open>
  C4, as stated, fails: a 10-digit input that begins with two zeros loses both, because
  the second rule runs on the result of the first.
\<close>

theorem NormalizePhoneNumber_local_counterexample:
  "digits ''0012345678'' \<and> length ''0012345678'' = 10 \<and> HasPrefix ''0012345678'' ''0'' \<and>
   NormalizePhoneNumber ''0012345678'' = ''97212345678'' \<and>
   NormalizePhoneNumber ''0012345678'' \<noteq> ''972'' @ drop 1 ''0012345678''"
  by (simp add: NormalizePhoneNumber_def HasPrefix_def ReplaceAll_del_def digits_def isDigit_def)

text \<open>
  C4 (amended): for every 10-character digit input that begins with \<open>0\<close> and whose second
  character is not \<open>0\<close>, the canonicalizer replaces the leading zero with the country code
  972, as in \<open>0538268277\<close> to \<open>972538268277\<close>; and for a digit input where the country
  code is immediately followed by a zero, that zero is dropped, as in \<open>9720538268277\<close>
  to \<open>972538268277\<close>.
\<close>

theorem NormalizePhoneNumber_country_code:
  "(digits x \<and> length x = 10 \<and> HasPrefix x ''0'' \<and> \<not> HasPrefix x ''00''
      \<longrightarrow> NormalizePhoneNumber x = ''972'' @ drop 1 x) \<and>
   NormalizePhoneNumber ''0538268277'' = ''972538268277'' \<and>
   (digits r \<longrightarrow> NormalizePhoneNumber (''9720'' @ r) = ''972'' @ r) \<and>
   NormalizePhoneNumber ''9720538268277'' = ''972538268277''"
proof (intro conjI impI)
  show "NormalizePhoneNumber x = ''972'' @ drop 1 x"
    if "digits x \<and> length x = 10 \<and> HasPrefix x ''0'' \<and> \<not> HasPrefix x ''00''"
    using that by (simp add: NormalizePhoneNumber_local)
  show "NormalizePhoneNumber (''9720'' @ r) = ''972'' @ r" if "digits r"
    using that by (rule NormalizePhoneNumber_redundant_zero)
  show "NormalizePhoneNumber ''0538268277'' = ''972538268277''"
    by (simp add: NormalizePhoneNumber_def HasPrefix_def ReplaceAll_del_def)
  show "NormalizePhoneNumber ''9720538268277'' = ''972538268277''"
    by (simp add: NormalizePhoneNumber_def HasPrefix_def ReplaceAll_del_def)
qed

theorem NormalizePhoneNumber_country_code_witness:
  "digits ''0501112222'' \<and> length ''0501112222'' = 10 \<and> HasPrefix ''0501112222'' ''0'' \<and>
   \<not> HasPrefix ''0501112222'' ''00'' \<and>
   NormalizePhoneNumber ''0501112222'' = ''972501112222'' \<and>
   digits ''501112222'' \<and>
   NormalizePhoneNumber ''9720501112222'' = ''972501112222''"
  using NormalizePhoneNumber_country_code [where x = "''0501112222''" and r = "''501112222''"]
  by (simp add: digits_def isDigit_def HasPrefix_def)

text \<open>The result of the canonicalizer is never a 10-character string with a leading zero.\<close>

lemma NormalizePhoneNumber_not_local:
  "\<not> (HasPrefix (NormalizePhoneNumber x) ''0'' \<and> length (NormalizePhoneNumber x) = 10)"
  by (simp add: NormalizePhoneNumber_def Let_def HasPrefix_def)

lemma NormalizePhoneNumber_twice:
  "NormalizePhoneNumber (NormalizePhoneNumber x) =
     (if HasPrefix (NormalizePhoneNumber x) ''9720'' then ''972'' @ drop 4 (NormalizePhoneNumber x)
      else NormalizePhoneNumber x)"
proof -
  have "set (NormalizePhoneNumber x) \<inter> {CHR ''+'', CHR '' '', CHR ''-'', CHR ''('', CHR '')''} = {}"
    using NormalizePhoneNumber_symbol_free [of _ x] by blast
  from NormalizePhoneNumber_clean [OF this] NormalizePhoneNumber_not_local [of x]
  show ?thesis by (simp add: Let_def)
qed

lemma HasPrefix_length: "HasPrefix s p \<Longrightarrow> length p \<le> length s"
  by (metis HasPrefix_def length_take min.cobounded1)

text \<open>
  A second application differs from the first exactly when the first result begins with
  \<open>9720\<close>; then it removes one more zero. The local number \<open>0001234567\<close> is such an
  input: three zeros are more than the two rules of one call take away.
\<close>

lemma NormalizePhoneNumber_twice_same_iff:
  "NormalizePhoneNumber (NormalizePhoneNumber x) = NormalizePhoneNumber x
     \<longleftrightarrow> \<not> HasPrefix (NormalizePhoneNumber x) ''9720''"
proof (cases "HasPrefix (NormalizePhoneNumber x) ''9720''")
  case True
  then have "4 \<le> length (NormalizePhoneNumber x)"
    using HasPrefix_length by fastforce
  then have "length (''972'' @ drop 4 (NormalizePhoneNumber x)) \<noteq> length (NormalizePhoneNumber x)"
    by simp
  then have "''972'' @ drop 4 (NormalizePhoneNumber x) \<noteq> NormalizePhoneNumber x"
    by metis
  with True show ?thesis
    by (simp only: NormalizePhoneNumber_twice if_True simp_thms)
next
  case False
  then show ?thesis
    by (simp only: NormalizePhoneNumber_twice if_False simp_thms)
qed

lemma NormalizePhoneNumber_three_zeros:
  "NormalizePhoneNumber ''0001234567'' = ''97201234567'' \<and>
   NormalizePhoneNumber (NormalizePhoneNumber ''0001234567'') = ''9721234567'' \<and>
   \<not> near_canonical_form ''0001234567''"
  by (simp add: NormalizePhoneNumber_def HasPrefix_def ReplaceAll_del_def near_canonical_form_def
      strip_symbols_def canonical_form_def redundant_zero_form_def local_form_def)

subsection \<open>The canonical form and the forms near to it\<close>

lemma NormalizePhoneNumber_strip_symbols:
  "NormalizePhoneNumber x =
     (let p = strip_symbols x;
          p5 = (if HasPrefix p ''0'' \<and> length p = 10 then ''972'' @ drop 1 p else p)
      in if HasPrefix p5 ''9720'' then ''972'' @ drop 4 p5 else p5)"
proof -
  have "ReplaceAll_del (ReplaceAll_del (ReplaceAll_del (ReplaceAll_del (ReplaceAll_del x
          (CHR ''+'')) (CHR '' '')) (CHR ''-'')) (CHR ''('')) (CHR '')'') = strip_symbols x"
    by (induction x) (simp_all add: ReplaceAll_del_def strip_symbols_def)
  then show ?thesis
    by (simp add: NormalizePhoneNumber_def)
qed

lemma strip_symbols_digits: "digits p \<Longrightarrow> strip_symbols p = p"
proof -
  assume "digits p"
  then have "\<forall>c\<in>set p. isDigit c"
    by (simp add: digits_def list_all_iff)
  then have "\<forall>c\<in>set p. c \<notin> set ''+ -()''"
    using isDigit_not_symbol by auto
  then show ?thesis
    by (simp add: strip_symbols_def)
qed

lemma NormalizePhoneNumber_canonical:
  assumes "canonical_form p"
  shows "NormalizePhoneNumber p = p"
  using assms
  by (simp add: NormalizePhoneNumber_strip_symbols strip_symbols_digits canonical_form_def Let_def)

lemma HasPrefix_9720_not_0: "HasPrefix p ''9720'' \<Longrightarrow> \<not> HasPrefix p ''0''"
  by (cases p) (auto simp: HasPrefix_def)

lemma NormalizePhoneNumber_near_canonical:
  assumes "near_canonical_form x"
  shows "canonical_form (NormalizePhoneNumber x)"
proof -
  let ?p = "strip_symbols x"
  consider "canonical_form ?p" | "redundant_zero_form ?p" | "local_form ?p"
    using assms by (auto simp: near_canonical_form_def)
  then show ?thesis
  proof cases
    case 1
    then show ?thesis
      by (simp add: NormalizePhoneNumber_strip_symbols canonical_form_def Let_def)
  next
    case 2
    then show ?thesis
      by (simp add: NormalizePhoneNumber_strip_symbols redundant_zero_form_def
          HasPrefix_9720_not_0 Let_def)
  next
    case 3
    then show ?thesis
      by (auto simp: NormalizePhoneNumber_strip_symbols local_form_def redundant_zero_form_def
          canonical_form_def Let_def)
  qed
qed

text \<open>
  C8: for every input in canonical or near-canonical form, applying the canonicalizer to
  its own result changes nothing; the result of the first application is in canonical
  form.
\<close>

theorem NormalizePhoneNumber_idempotent:
  assumes "near_canonical_form x"
  shows "NormalizePhoneNumber (NormalizePhoneNumber x) = NormalizePhoneNumber x"
  using NormalizePhoneNumber_near_canonical [OF assms] by (rule NormalizePhoneNumber_canonical)

theorem NormalizePhoneNumber_idempotent_witness:
  "near_canonical_form ''972538268277'' \<and>
   NormalizePhoneNumber (NormalizePhoneNumber ''972538268277'') =
     NormalizePhoneNumber ''972538268277'' \<and>
   near_canonical_form ''+972 (53) 826-8277'' \<and>
   NormalizePhoneNumber (NormalizePhoneNumber ''+972 (53) 826-8277'') =
     NormalizePhoneNumber ''+972 (53) 826-8277'' \<and>
   near_canonical_form ''0538268277'' \<and>
   NormalizePhoneNumber (NormalizePhoneNumber ''0538268277'') =
     NormalizePhoneNumber ''0538268277'' \<and>
   near_canonical_form ''9720538268277'' \<and>
   NormalizePhoneNumber (NormalizePhoneNumber ''9720538268277'') =
     NormalizePhoneNumber ''9720538268277'' \<and>
   near_canonical_form ''0012345678'' \<and>
   NormalizePhoneNumber (NormalizePhoneNumber ''0012345678'') =
     NormalizePhoneNumber ''0012345678'' \<and>
   NormalizePhoneNumber ''0538268277'' = ''972538268277''"
proof -
  have a: "near_canonical_form ''972538268277''" "near_canonical_form ''+972 (53) 826-8277''"
    "near_canonical_form ''0538268277''" "near_canonical_form ''9720538268277''"
    "near_canonical_form ''0012345678''"
    by (simp_all add: near_canonical_form_def strip_symbols_def canonical_form_def
        redundant_zero_form_def local_form_def digits_def isDigit_def HasPrefix_def)
  have b: "NormalizePhoneNumber ''0538268277'' = ''972538268277''"
    by (simp add: NormalizePhoneNumber_def HasPrefix_def ReplaceAll_del_def)
  from a b
    NormalizePhoneNumber_idempotent [of "''972538268277''"]
    NormalizePhoneNumber_idempotent [of "''+972 (53) 826-8277''"]
    NormalizePhoneNumber_idempotent [of "''0538268277''"]
    NormalizePhoneNumber_idempotent [of "''9720538268277''"]
    NormalizePhoneNumber_idempotent [of "''0012345678''"]
  show ?thesis
    by blast
qed

section \<open>Properties of the store\<close>

lemma find_append:
  "find P (xs @ ys) = (case find P xs of None \<Rightarrow> find P ys | Some x \<Rightarrow> Some x)"
  by (induction xs) simp_all

lemma guests_Save: "guests (snd (Save io s)) = guests s"
  by (simp add: Save_def split: write_outcome.splits)

lemma GetGuest_Save: "GetGuest p (snd (Save io s)) = GetGuest p s"
  by (simp add: GetGuest_def guests_Save)

lemma GetGuest_NotFound_iff:
  "GetGuest p s = Inl GuestNotFound \<longleftrightarrow> (\<forall>g\<in>set (guests s). PhoneNumber g \<noteq> p)"
proof (cases "find (\<lambda>g. PhoneNumber g = p) (guests s)")
  case None
  moreover from None have "\<forall>g\<in>set (guests s). PhoneNumber g \<noteq> p"
    by (simp add: find_None_iff)
  ultimately show ?thesis by (simp add: GetGuest_def)
next
  case (Some g)
  then have "g \<in> set (guests s)" "PhoneNumber g = p"
    by (auto simp: find_Some_iff)
  with Some show ?thesis by (auto simp: GetGuest_def)
qed

lemma GetGuest_Inr_iff:
  "GetGuest p s = Inr g \<longleftrightarrow> find (\<lambda>h. PhoneNumber h = p) (guests s) = Some g"
  by (simp add: GetGuest_def split: option.splits)

subsection \<open>The two loops\<close>

lemma AddGuest_existing_None:
  "AddGuest_existing guest gs = None \<longleftrightarrow> find (\<lambda>h. PhoneNumber h = PhoneNumber guest) gs = None"
  by (induction gs) (auto simp: Let_def)

lemma AddGuest_existing_Some:
  "find (\<lambda>h. PhoneNumber h = PhoneNumber guest) gs = Some g \<Longrightarrow>
   \<exists>gs'. AddGuest_existing guest gs = Some gs' \<and>
     find (\<lambda>h. PhoneNumber h = PhoneNumber guest) gs' =
       Some (if RSVPStatus guest = RSVPNotInvited
             then guest\<lparr>InvitedDate := InvitedDate g, RSVPStatus := RSVPStatus g\<rparr>
             else guest\<lparr>InvitedDate := InvitedDate g\<rparr>)"
  by (induction gs) (auto simp: Let_def)

lemma AddGuest_existing_rel:
  "AddGuest_existing guest gs = Some gs' \<Longrightarrow> RSVPStatus guest \<noteq> RSVPNotInvited \<Longrightarrow>
   list_all2 (\<lambda>g g'. RSVPStatus g' \<in> {RSVPStatus g, RSVPStatus guest}) gs gs'"
proof (induction gs arbitrary: gs')
  case Nil
  then show ?case by simp
next
  case (Cons a gs)
  then show ?case
    by (auto simp: Let_def list.rel_refl split: if_splits)
qed

lemma UpdateRSVP_existing_None:
  "UpdateRSVP_existing tnow p status nts gs = None \<longleftrightarrow> find (\<lambda>h. PhoneNumber h = p) gs = None"
  by (induction gs) (auto simp: Let_def)

lemma UpdateRSVP_existing_Some:
  "find (\<lambda>h. PhoneNumber h = p) gs = Some g \<Longrightarrow>
   \<exists>gs'. UpdateRSVP_existing tnow p status nts gs = Some gs' \<and>
     find (\<lambda>h. PhoneNumber h = p) gs' =
       Some (if nts \<noteq> [] then g\<lparr>RSVPStatus := status, RSVPDate := tnow, Notes := nts\<rparr>
             else g\<lparr>RSVPStatus := status, RSVPDate := tnow\<rparr>)"
  by (induction gs) (auto simp: Let_def)

lemma UpdateRSVP_existing_rel:
  "UpdateRSVP_existing tnow p status nts gs = Some gs' \<Longrightarrow>
   list_all2 (\<lambda>g g'. PhoneNumber g' = PhoneNumber g \<and> RSVPStatus g' \<in> {RSVPStatus g, status}) gs gs'"
proof (induction gs arbitrary: gs')
  case Nil
  then show ?case by simp
next
  case (Cons a gs)
  then show ?case
    by (auto simp: Let_def list.rel_refl split: if_splits)
qed

subsection \<open>AddGuest\<close>

lemma AddGuest_merge:
  assumes "GetGuest (PhoneNumber guest) s = Inr g"
  shows "GetGuest (PhoneNumber guest) (snd (AddGuest tnow io guest s)) =
     Inr (if RSVPStatus guest = RSVPNotInvited
          then guest\<lparr>InvitedDate := InvitedDate g, RSVPStatus := RSVPStatus g\<rparr>
          else guest\<lparr>InvitedDate := InvitedDate g\<rparr>)"
proof -
  from assms have "find (\<lambda>h. PhoneNumber h = PhoneNumber guest) (guests s) = Some g"
    by (simp add: GetGuest_Inr_iff)
  from AddGuest_existing_Some [OF this] obtain gs' where
    "AddGuest_existing guest (guests s) = Some gs'"
    "find (\<lambda>h. PhoneNumber h = PhoneNumber guest) gs' =
       Some (if RSVPStatus guest = RSVPNotInvited
             then guest\<lparr>InvitedDate := InvitedDate g, RSVPStatus := RSVPStatus g\<rparr>
             else guest\<lparr>InvitedDate := InvitedDate g\<rparr>)"
    by blast
  then show ?thesis
    by (simp add: AddGuest_def GetGuest_Save) (simp add: GetGuest_def)
qed

lemma AddGuest_insert:
  assumes "GetGuest (PhoneNumber guest) s = Inl GuestNotFound"
  shows "guests (snd (AddGuest tnow io guest s)) =
     guests s @ [guest\<lparr>InvitedDate := (if IsZero (InvitedDate guest) then tnow else InvitedDate guest),
                       RSVPStatus := (if RSVPStatus guest = [] then RSVPPending else RSVPStatus guest)\<rparr>]"
proof -
  from assms have "AddGuest_existing guest (guests s) = None"
    by (simp add: AddGuest_existing_None GetGuest_def split: option.splits)
  then show ?thesis
    by (simp add: AddGuest_def guests_Save Let_def)
qed

lemma AddGuest_insert_get:
  assumes "GetGuest (PhoneNumber guest) s = Inl GuestNotFound"
  shows "GetGuest (PhoneNumber guest) (snd (AddGuest tnow io guest s)) =
     Inr (guest\<lparr>InvitedDate := (if IsZero (InvitedDate guest) then tnow else InvitedDate guest),
                RSVPStatus := (if RSVPStatus guest = [] then RSVPPending else RSVPStatus guest)\<rparr>)"
proof -
  from assms have "find (\<lambda>h. PhoneNumber h = PhoneNumber guest) (guests s) = None"
    by (simp add: GetGuest_def split: option.splits)
  then show ?thesis
    by (simp add: GetGuest_def AddGuest_insert [OF assms] find_append)
qed

text \<open>
  C1, as stated, fails for an empty incoming status: the merge keeps the stored status
  only for \<^verbatim>\<open>RSVPNotInvited\<close>, so the empty status replaces the status Accepted of the
  stored record.
\<close>

theorem AddGuest_empty_status_counterexample:
  "GetGuest ''972501112222'' (storage (dana_world RSVPAccepted)) = Inr (dana RSVPAccepted) \<and>
   RSVPStatus (dana RSVPAccepted) = RSVPAccepted \<and>
   GetGuest ''972501112222''
     (snd (AddGuest 9 WriteOk (dana []) (storage (dana_world RSVPAccepted)))) = Inr (dana []) \<and>
   RSVPStatus (dana []) \<noteq> RSVPAccepted"
  by (simp add: GetGuest_def AddGuest_def Save_def dana_world_def dana_def Let_def
      RSVPAccepted_def RSVPNotInvited_def)

text \<open>
  C1 (amended): for every upsert, if a record with the same phone number already exists,
  the merged record keeps the existing record's \<open>InvitedDate\<close>, keeps the existing
  record's status whenever the incoming status is NotInvited, and takes the incoming
  status when that is neither empty nor NotInvited; if no record exists, the inserted
  record is appended with \<open>InvitedDate\<close> set to the call time when unset and status
  Pending when unset. This holds whether or not the save succeeds.
\<close>

theorem AddGuest_upsert:
  "(GetGuest (PhoneNumber guest) s = Inr g \<longrightarrow>
      (\<exists>m. GetGuest (PhoneNumber guest) (snd (AddGuest tnow io guest s)) = Inr m \<and>
           InvitedDate m = InvitedDate g \<and>
           (RSVPStatus guest = RSVPNotInvited \<longrightarrow> RSVPStatus m = RSVPStatus g) \<and>
           (RSVPStatus guest \<noteq> [] \<and> RSVPStatus guest \<noteq> RSVPNotInvited
              \<longrightarrow> RSVPStatus m = RSVPStatus guest))) \<and>
   (GetGuest (PhoneNumber guest) s = Inl GuestNotFound \<longrightarrow>
      (\<exists>m. guests (snd (AddGuest tnow io guest s)) = guests s @ [m] \<and>
           GetGuest (PhoneNumber guest) (snd (AddGuest tnow io guest s)) = Inr m \<and>
           InvitedDate m = (if IsZero (InvitedDate guest) then tnow else InvitedDate guest) \<and>
           RSVPStatus m = (if RSVPStatus guest = [] then RSVPPending else RSVPStatus guest)))"
proof (intro conjI impI)
  assume "GetGuest (PhoneNumber guest) s = Inr g"
  from AddGuest_merge [OF this, of tnow io]
  show "\<exists>m. GetGuest (PhoneNumber guest) (snd (AddGuest tnow io guest s)) = Inr m \<and>
           InvitedDate m = InvitedDate g \<and>
           (RSVPStatus guest = RSVPNotInvited \<longrightarrow> RSVPStatus m = RSVPStatus g) \<and>
           (RSVPStatus guest \<noteq> [] \<and> RSVPStatus guest \<noteq> RSVPNotInvited
              \<longrightarrow> RSVPStatus m = RSVPStatus guest)"
    by simp
next
  assume "GetGuest (PhoneNumber guest) s = Inl GuestNotFound"
  from AddGuest_insert [OF this, of tnow io] AddGuest_insert_get [OF this, of tnow io]
  show "\<exists>m. guests (snd (AddGuest tnow io guest s)) = guests s @ [m] \<and>
           GetGuest (PhoneNumber guest) (snd (AddGuest tnow io guest s)) = Inr m \<and>
           InvitedDate m = (if IsZero (InvitedDate guest) then tnow else InvitedDate guest) \<and>
           RSVPStatus m = (if RSVPStatus guest = [] then RSVPPending else RSVPStatus guest)"
    by simp
qed

theorem AddGuest_upsert_witness:
  "GetGuest (PhoneNumber (dana RSVPNotInvited)) (storage (dana_world RSVPAccepted)) =
     Inr (dana RSVPAccepted) \<and>
   (\<exists>m. GetGuest ''972501112222''
          (snd (AddGuest 9 WriteOk (dana RSVPNotInvited) (storage (dana_world RSVPAccepted)))) = Inr m \<and>
        InvitedDate m = 3 \<and> RSVPStatus m = RSVPAccepted) \<and>
   (\<exists>m. GetGuest ''972501112222''
          (snd (AddGuest 9 WriteOk (dana RSVPDeclined) (storage (dana_world RSVPAccepted)))) = Inr m \<and>
        InvitedDate m = 3 \<and> RSVPStatus m = RSVPDeclined) \<and>
   GetGuest (PhoneNumber ((dana []) \<lparr>InvitedDate := 0\<rparr>)) (storage empty_world) = Inl GuestNotFound \<and>
   (\<exists>m. guests (snd (AddGuest 9 WriteOk ((dana []) \<lparr>InvitedDate := 0\<rparr>) (storage empty_world))) = [m] \<and>
        InvitedDate m = 9 \<and> RSVPStatus m = RSVPPending)"
proof -
  have a: "GetGuest (PhoneNumber (dana RSVPNotInvited)) (storage (dana_world RSVPAccepted)) =
     Inr (dana RSVPAccepted)"
    by (simp add: GetGuest_def dana_world_def dana_def)
  have b: "GetGuest (PhoneNumber ((dana []) \<lparr>InvitedDate := 0\<rparr>)) (storage empty_world) =
     Inl GuestNotFound"
    by (simp add: GetGuest_def empty_world_def)
  from a AddGuest_upsert [of "dana RSVPNotInvited" "storage (dana_world RSVPAccepted)"
      "dana RSVPAccepted" 9 WriteOk]
  have "\<exists>m. GetGuest ''972501112222''
          (snd (AddGuest 9 WriteOk (dana RSVPNotInvited) (storage (dana_world RSVPAccepted)))) = Inr m \<and>
        InvitedDate m = 3 \<and> RSVPStatus m = RSVPAccepted"
    by (simp add: dana_def)
  moreover
  have c: "GetGuest (PhoneNumber (dana RSVPDeclined)) (storage (dana_world RSVPAccepted)) =
     Inr (dana RSVPAccepted)"
    by (simp add: GetGuest_def dana_world_def dana_def)
  from c AddGuest_upsert [of "dana RSVPDeclined" "storage (dana_world RSVPAccepted)"
      "dana RSVPAccepted" 9 WriteOk]
  have "\<exists>m. GetGuest ''972501112222''
          (snd (AddGuest 9 WriteOk (dana RSVPDeclined) (storage (dana_world RSVPAccepted)))) = Inr m \<and>
        InvitedDate m = 3 \<and> RSVPStatus m = RSVPDeclined"
    by (simp add: dana_def RSVPDeclined_def RSVPNotInvited_def)
  moreover
  from b AddGuest_upsert [of "(dana []) \<lparr>InvitedDate := 0\<rparr>" "storage empty_world" _ 9 WriteOk]
  have "\<exists>m. guests (snd (AddGuest 9 WriteOk ((dana []) \<lparr>InvitedDate := 0\<rparr>) (storage empty_world))) = [m] \<and>
        InvitedDate m = 9 \<and> RSVPStatus m = RSVPPending"
    by (simp add: dana_def empty_world_def IsZero_def) blast
  ultimately show ?thesis
    using a b by blast
qed

text \<open>
  C9: an upsert on a known phone number stores the incoming record with the stored
  \<open>InvitedDate\<close>, and with the stored status when the incoming one is NotInvited; every
  other field is the incoming one. \<^verbatim>\<open>SendInvitation\<close> upserts a record with the zero
  \<open>RSVPDate\<close> and empty notes, so after re-inviting a known guest the record has the new
  name, \<open>RSVPDate\<close> zero and no notes.
\<close>

theorem AddGuest_replaces_fields:
  "(GetGuest (PhoneNumber guest) s = Inr g \<longrightarrow>
      GetGuest (PhoneNumber guest) (snd (AddGuest tnow io guest s)) =
        Inr (guest\<lparr>InvitedDate := InvitedDate g,
                   RSVPStatus := (if RSVPStatus guest = RSVPNotInvited then RSVPStatus g
                                  else RSVPStatus guest)\<rparr>)) \<and>
   (GetGuest (NormalizePhoneNumber phoneNumber) (storage w) = Inr g' \<longrightarrow>
      GetGuest (NormalizePhoneNumber phoneNumber)
          (storage (snd (SendInvitation cfg env phoneNumber guestName w))) =
        Inr \<lparr>PhoneNumber = NormalizePhoneNumber phoneNumber, Name = guestName,
             RSVPStatus = RSVPPending, RSVPDate = 0, InvitedDate = InvitedDate g', Notes = []\<rparr>)"
proof (intro conjI impI)
  assume "GetGuest (PhoneNumber guest) s = Inr g"
  from AddGuest_merge [OF this, of tnow io]
  show "GetGuest (PhoneNumber guest) (snd (AddGuest tnow io guest s)) =
        Inr (guest\<lparr>InvitedDate := InvitedDate g,
                   RSVPStatus := (if RSVPStatus guest = RSVPNotInvited then RSVPStatus g
                                  else RSVPStatus guest)\<rparr>)"
    by simp
next
  let ?guest = "\<lparr>PhoneNumber = NormalizePhoneNumber phoneNumber, Name = guestName,
      RSVPStatus = RSVPPending, RSVPDate = 0, InvitedDate = 0, Notes = []\<rparr>"
  assume "GetGuest (NormalizePhoneNumber phoneNumber) (storage w) = Inr g'"
  then have "GetGuest (PhoneNumber ?guest) (storage w) = Inr g'"
    by simp
  from AddGuest_merge [OF this, of "env_now env" "env_save env"]
  have "GetGuest (NormalizePhoneNumber phoneNumber)
      (snd (AddGuest (env_now env) (env_save env) ?guest (storage w))) =
        Inr \<lparr>PhoneNumber = NormalizePhoneNumber phoneNumber, Name = guestName,
             RSVPStatus = RSVPPending, RSVPDate = 0, InvitedDate = InvitedDate g', Notes = []\<rparr>"
    by (simp add: RSVPPending_def RSVPNotInvited_def)
  moreover have "storage (snd (SendInvitation cfg env phoneNumber guestName w)) =
      snd (AddGuest (env_now env) (env_save env) ?guest (storage w))"
    by (simp add: SendInvitation_def Let_def split: prod.splits option.splits)
  ultimately show "GetGuest (NormalizePhoneNumber phoneNumber)
          (storage (snd (SendInvitation cfg env phoneNumber guestName w))) =
        Inr \<lparr>PhoneNumber = NormalizePhoneNumber phoneNumber, Name = guestName,
             RSVPStatus = RSVPPending, RSVPDate = 0, InvitedDate = InvitedDate g', Notes = []\<rparr>"
    by simp
qed

theorem AddGuest_replaces_fields_witness:
  "GetGuest (PhoneNumber ((dana RSVPDeclined) \<lparr>Name := ''Dana K'', Notes := []\<rparr>))
       (storage (dana_world RSVPAccepted)) = Inr (dana RSVPAccepted) \<and>
   GetGuest ''972501112222''
       (snd (AddGuest 9 WriteOk ((dana RSVPDeclined) \<lparr>Name := ''Dana K'', Notes := []\<rparr>)
          (storage (dana_world RSVPAccepted)))) =
     Inr \<lparr>PhoneNumber = ''972501112222'', Name = ''Dana K'', RSVPStatus = RSVPDeclined,
          RSVPDate = 5, InvitedDate = 3, Notes = []\<rparr> \<and>
   GetGuest (NormalizePhoneNumber ''0501112222'') (storage (dana_world RSVPAccepted)) =
     Inr (dana RSVPAccepted) \<and>
   GetGuest ''972501112222''
       (storage (snd (SendInvitation example_config example_env ''0501112222'' ''Dana K''
          (dana_world RSVPAccepted)))) =
     Inr \<lparr>PhoneNumber = ''972501112222'', Name = ''Dana K'', RSVPStatus = RSVPPending,
          RSVPDate = 0, InvitedDate = 3, Notes = []\<rparr>"
proof -
  have n: "NormalizePhoneNumber ''0501112222'' = ''972501112222''"
    by (simp add: NormalizePhoneNumber_def HasPrefix_def ReplaceAll_del_def)
  have a: "GetGuest (PhoneNumber ((dana RSVPDeclined) \<lparr>Name := ''Dana K'', Notes := []\<rparr>))
       (storage (dana_world RSVPAccepted)) = Inr (dana RSVPAccepted)"
    by (simp add: GetGuest_def dana_world_def dana_def)
  have b: "GetGuest (NormalizePhoneNumber ''0501112222'') (storage (dana_world RSVPAccepted)) =
     Inr (dana RSVPAccepted)"
    by (simp add: n GetGuest_def dana_world_def dana_def)
  from a b AddGuest_replaces_fields [of "(dana RSVPDeclined) \<lparr>Name := ''Dana K'', Notes := []\<rparr>"
      "storage (dana_world RSVPAccepted)" "dana RSVPAccepted" 9 WriteOk "''0501112222''"
      "dana_world RSVPAccepted" "dana RSVPAccepted" example_config example_env "''Dana K''"]
  show ?thesis
    by (simp add: n dana_def RSVPDeclined_def RSVPNotInvited_def)
qed

subsection \<open>UpdateRSVP\<close>

lemma UpdateRSVP_rel:
  "list_all2 (\<lambda>g g'. PhoneNumber g' = PhoneNumber g \<and> RSVPStatus g' \<in> {RSVPStatus g, status})
     (guests s) (guests (snd (UpdateRSVP tnow io p status nts s)))"
proof (cases "UpdateRSVP_existing tnow p status nts (guests s)")
  case None
  then show ?thesis by (simp add: UpdateRSVP_def list.rel_refl)
next
  case (Some gs')
  then show ?thesis
    using UpdateRSVP_existing_rel [OF Some] by (simp add: UpdateRSVP_def guests_Save)
qed

lemma UpdateRSVP_get:
  assumes "GetGuest p s = Inr g"
  shows "GetGuest p (snd (UpdateRSVP tnow io p status nts s)) =
     Inr (if nts \<noteq> [] then g\<lparr>RSVPStatus := status, RSVPDate := tnow, Notes := nts\<rparr>
          else g\<lparr>RSVPStatus := status, RSVPDate := tnow\<rparr>)"
proof -
  from assms have "find (\<lambda>h. PhoneNumber h = p) (guests s) = Some g"
    by (simp add: GetGuest_Inr_iff)
  from UpdateRSVP_existing_Some [OF this, of tnow status nts] obtain gs' where
    "UpdateRSVP_existing tnow p status nts (guests s) = Some gs'"
    "find (\<lambda>h. PhoneNumber h = p) gs' =
       Some (if nts \<noteq> [] then g\<lparr>RSVPStatus := status, RSVPDate := tnow, Notes := nts\<rparr>
             else g\<lparr>RSVPStatus := status, RSVPDate := tnow\<rparr>)"
    by blast
  then show ?thesis
    by (simp add: UpdateRSVP_def GetGuest_Save) (simp add: GetGuest_def)
qed

text \<open>
  C6: for every store and every phone number without a record in it, \<^verbatim>\<open>UpdateRSVP\<close>
  returns the error "guest not found" and the store, its guest list and its file, is
  exactly what it was.
\<close>

theorem UpdateRSVP_unknown_phone:
  assumes "\<forall>g\<in>set (guests s). PhoneNumber g \<noteq> phoneNumber"
  shows "UpdateRSVP tnow io phoneNumber status nts s = (Some GuestNotFound, s)"
proof -
  from assms have "UpdateRSVP_existing tnow phoneNumber status nts (guests s) = None"
    by (simp add: UpdateRSVP_existing_None find_None_iff)
  then show ?thesis by (simp add: UpdateRSVP_def)
qed

theorem UpdateRSVP_unknown_phone_witness:
  "list_all (\<lambda>g. PhoneNumber g \<noteq> ''972509999999'') (guests (storage (dana_world RSVPPending))) \<and>
   UpdateRSVP 9 WriteOk ''972509999999'' RSVPAccepted [] (storage (dana_world RSVPPending)) =
     (Some GuestNotFound, storage (dana_world RSVPPending))"
proof -
  have a: "\<forall>g\<in>set (guests (storage (dana_world RSVPPending))). PhoneNumber g \<noteq> ''972509999999''"
    by (simp add: dana_world_def dana_def)
  from UpdateRSVP_unknown_phone [OF a] a show ?thesis
    by (simp add: list_all_iff)
qed

section \<open>Properties of the handler\<close>

subsection \<open>Re-invitation\<close>

lemma storage_SendInvitation:
  "storage (snd (SendInvitation cfg env phoneNumber guestName w)) =
     snd (AddGuest (env_now env) (env_save env)
       \<lparr>PhoneNumber = NormalizePhoneNumber phoneNumber, Name = guestName, RSVPStatus = RSVPPending,
        RSVPDate = 0, InvitedDate = 0, Notes = []\<rparr> (storage w))"
  by (simp add: SendInvitation_def Let_def split: prod.splits option.splits)

text \<open>
  C3, as stated, fails: \<^verbatim>\<open>SendInvitation\<close> upserts with status Pending, which is not
  NotInvited, so the merge overwrites the status Accepted of the stored record.
\<close>

theorem SendInvitation_accepted_counterexample:
  "GetGuest ''972501112222'' (storage (dana_world RSVPAccepted)) = Inr (dana RSVPAccepted) \<and>
   RSVPStatus (dana RSVPAccepted) = RSVPAccepted \<and>
   GetGuest ''972501112222''
       (storage (snd (SendInvitation example_config example_env ''0501112222'' ''Dana''
          (dana_world RSVPAccepted)))) =
     Inr \<lparr>PhoneNumber = ''972501112222'', Name = ''Dana'', RSVPStatus = RSVPPending,
          RSVPDate = 0, InvitedDate = 3, Notes = []\<rparr> \<and>
   RSVPPending \<noteq> RSVPAccepted"
proof -
  have n: "NormalizePhoneNumber ''0501112222'' = ''972501112222''"
    by (simp add: NormalizePhoneNumber_def HasPrefix_def ReplaceAll_del_def)
  show ?thesis
    by (simp add: storage_SendInvitation n GetGuest_def AddGuest_def Save_def Let_def
        dana_world_def dana_def example_env_def RSVPPending_def RSVPAccepted_def RSVPNotInvited_def)
qed

text \<open>
  C3 (amended): for every call to \<^verbatim>\<open>SendInvitation\<close> for a phone number that has a record,
  whatever the status of that record (Accepted and Declined included), the status of the
  record after the upsert is Pending; its \<open>InvitedDate\<close> is kept.
\<close>

theorem SendInvitation_status_pending:
  assumes "GetGuest (NormalizePhoneNumber phoneNumber) (storage w) = Inr g"
  shows "\<exists>m. GetGuest (NormalizePhoneNumber phoneNumber)
               (storage (snd (SendInvitation cfg env phoneNumber guestName w))) = Inr m \<and>
             RSVPStatus m = RSVPPending \<and> InvitedDate m = InvitedDate g"
proof -
  let ?guest = "\<lparr>PhoneNumber = NormalizePhoneNumber phoneNumber, Name = guestName,
      RSVPStatus = RSVPPending, RSVPDate = 0, InvitedDate = 0, Notes = []\<rparr>"
  from assms have "GetGuest (PhoneNumber ?guest) (storage w) = Inr g"
    by simp
  from AddGuest_merge [OF this, of "env_now env" "env_save env"]
  show ?thesis
    by (simp add: storage_SendInvitation RSVPPending_def RSVPNotInvited_def)
qed

theorem SendInvitation_status_pending_witness:
  "GetGuest (NormalizePhoneNumber ''0501112222'') (storage (dana_world RSVPDeclined)) =
     Inr (dana RSVPDeclined) \<and>
   (\<exists>m. GetGuest (NormalizePhoneNumber ''0501112222'')
          (storage (snd (SendInvitation example_config example_env ''0501112222'' ''Dana''
             (dana_world RSVPDeclined)))) = Inr m \<and>
        RSVPStatus m = RSVPPending \<and> InvitedDate m = 3)"
proof -
  have n: "NormalizePhoneNumber ''0501112222'' = ''972501112222''"
    by (simp add: NormalizePhoneNumber_def HasPrefix_def ReplaceAll_del_def)
  have a: "GetGuest (NormalizePhoneNumber ''0501112222'') (storage (dana_world RSVPDeclined)) =
     Inr (dana RSVPDeclined)"
    by (simp add: n GetGuest_def dana_world_def dana_def)
  from SendInvitation_status_pending [OF a, of example_config example_env "''Dana''"] a
  show ?thesis
    by (simp add: dana_def)
qed

subsection \<open>Inbound messages\<close>

lemma containsAny_iff: "containsAny t ks \<longleftrightarrow> (\<exists>k\<in>set ks. Contains t k)"
  by (induction ks) auto

lemma rsvpResponse_status:
  "rsvpResponse cfg t = Some (st, m) \<Longrightarrow> st = RSVPAccepted \<or> st = RSVPDeclined"
  by (auto simp: rsvpResponse_def split: if_splits)

lemma HandleMessage_empty:
  "Message msg = None \<or> GetConversation (Message msg) = [] \<Longrightarrow> HandleMessage lib cfg env msg w = (None, w)"
  by (auto simp: HandleMessage_def Let_def)

lemma HandleMessage_unknown_sender:
  assumes "\<forall>g\<in>set (guests (storage w)). PhoneNumber g \<noteq> senderPhoneNumber (Info_Sender msg)"
  shows "HandleMessage lib cfg env msg w = (None, w)"
proof -
  from assms have "GetGuest (senderPhoneNumber (Info_Sender msg)) (storage w) = Inl GuestNotFound"
    by (simp add: GetGuest_NotFound_iff)
  then show ?thesis by (simp add: HandleMessage_def Let_def)
qed

lemma HandleMessage_unrecognized:
  assumes "rsvpResponse cfg (ToLower lib (TrimSpace lib (GetConversation (Message msg)))) = None"
  shows "HandleMessage lib cfg env msg w = (None, w)"
  using assms by (simp add: HandleMessage_def Let_def split: sum.splits)

text \<open>Whatever a message does to the store, it does through one \<^verbatim>\<open>UpdateRSVP\<close>.\<close>

lemma storage_HandleMessage:
  "storage (snd (HandleMessage lib cfg env msg w)) = storage w \<or>
   (\<exists>st. (st = RSVPAccepted \<or> st = RSVPDeclined) \<and>
      storage (snd (HandleMessage lib cfg env msg w)) =
        snd (UpdateRSVP (env_now env) (env_save env) (senderPhoneNumber (Info_Sender msg)) st []
               (storage w)))"
  by (auto simp: HandleMessage_def Let_def dest: rsvpResponse_status
      split: sum.splits option.splits prod.splits)

lemma HandleMessage_rel:
  "list_all2 (\<lambda>g g'. PhoneNumber g' = PhoneNumber g \<and>
                RSVPStatus g' \<in> {RSVPStatus g, RSVPAccepted, RSVPDeclined})
     (guests (storage w)) (guests (storage (snd (HandleMessage lib cfg env msg w))))"
proof -
  consider "storage (snd (HandleMessage lib cfg env msg w)) = storage w"
    | st where "st = RSVPAccepted \<or> st = RSVPDeclined"
        "storage (snd (HandleMessage lib cfg env msg w)) =
           snd (UpdateRSVP (env_now env) (env_save env) (senderPhoneNumber (Info_Sender msg)) st []
                  (storage w))"
    using storage_HandleMessage [of lib cfg env msg w] by blast
  then show ?thesis
  proof cases
    case 1
    then show ?thesis by (simp add: list.rel_refl)
  next
    case 2
    have "list_all2 (\<lambda>g g'. PhoneNumber g' = PhoneNumber g \<and> RSVPStatus g' \<in> {RSVPStatus g, st})
       (guests (storage w)) (guests (storage (snd (HandleMessage lib cfg env msg w))))"
      unfolding 2(2) by (rule UpdateRSVP_rel)
    then show ?thesis
      using 2(1) by (auto elim!: list_all2_mono)
  qed
qed

lemma handleMessage_rel:
  "list_all2 (\<lambda>g g'. PhoneNumber g' = PhoneNumber g \<and>
                RSVPStatus g' \<in> {RSVPStatus g, RSVPAccepted, RSVPDeclined})
     (guests (storage w)) (guests (storage (handleMessage (Some (HandleMessage lib cfg env)) msg w)))"
  using HandleMessage_rel [of w lib cfg env msg] by (simp add: handleMessage_def list.rel_refl)

subsection \<open>Statuses along a run\<close>

lemma list_all2_preserves:
  assumes "list_all2 R xs ys" and "\<forall>x\<in>set xs. P x" and "\<And>x y. R x y \<Longrightarrow> P x \<Longrightarrow> P y"
  shows "\<forall>y\<in>set ys. P y"
  using assms(1,2) by (induction rule: list_all2_induct) (auto intro: assms(3))

lemma AddGuest_Pending_valid:
  assumes "\<forall>g\<in>set (guests s). RSVPStatus g \<in> {RSVPPending, RSVPAccepted, RSVPDeclined}"
    and "RSVPStatus guest = RSVPPending"
  shows "\<forall>g\<in>set (guests (snd (AddGuest tnow io guest s))).
           RSVPStatus g \<in> {RSVPPending, RSVPAccepted, RSVPDeclined}"
proof (cases "AddGuest_existing guest (guests s)")
  case None
  with assms show ?thesis
    by (auto simp: AddGuest_def guests_Save Let_def RSVPPending_def)
next
  case (Some gs')
  have "RSVPStatus guest \<noteq> RSVPNotInvited"
    using assms(2) by (simp add: RSVPPending_def RSVPNotInvited_def)
  from AddGuest_existing_rel [OF Some this]
  have "list_all2 (\<lambda>g g'. RSVPStatus g' \<in> {RSVPStatus g, RSVPPending}) (guests s) gs'"
    using assms(2) by simp
  then have "\<forall>g\<in>set gs'. RSVPStatus g \<in> {RSVPPending, RSVPAccepted, RSVPDeclined}"
    by (rule list_all2_preserves [OF _ assms(1)]) auto
  with Some show ?thesis by (simp add: AddGuest_def guests_Save)
qed

lemma step_valid:
  assumes "statuses_valid w"
  shows "statuses_valid (step lib cfg ev w)"
proof (cases ev)
  case (Invite env p n)
  from assms show ?thesis
    unfolding statuses_valid_def list_all_iff Invite step.simps storage_SendInvitation
    by (intro AddGuest_Pending_valid) simp_all
next
  case (Inbound env msg)
  from assms
  have "\<forall>g\<in>set (guests (storage w)). RSVPStatus g \<in> {RSVPPending, RSVPAccepted, RSVPDeclined}"
    by (simp add: statuses_valid_def list_all_iff)
  then have "statuses_valid (handleMessage (Some (HandleMessage lib cfg env)) msg w)"
    unfolding statuses_valid_def list_all_iff by (rule list_all2_preserves [OF handleMessage_rel]) auto
  then show ?thesis by (simp add: Inbound)
qed

lemma run_valid: "statuses_valid w \<Longrightarrow> statuses_valid (run lib cfg evs w)"
  unfolding run_def by (induction evs arbitrary: w) (simp_all add: step_valid)

text \<open>
  The end-to-end scenario of the specification: inviting \<open>0501112222\<close> stores one record
  under \<open>972501112222\<close> with status Pending; the reply "Yes, can't wait!" from that number
  makes it Accepted with the \<open>RSVPDate\<close> set, and one confirmation is sent.
\<close>

lemma scenario_invite_then_accept:
  "guests (storage (run ascii_strings example_config [Invite example_env ''0501112222'' ''Dana''] empty_world)) =
     [\<lparr>PhoneNumber = ''972501112222'', Name = ''Dana'', RSVPStatus = RSVPPending, RSVPDate = 0,
       InvitedDate = 9, Notes = []\<rparr>] \<and>
   guests (storage (run ascii_strings example_config
      [Invite example_env ''0501112222'' ''Dana'',
       Inbound (example_env \<lparr>env_now := 12\<rparr>) (reply ''Yes, can't wait!'')] empty_world)) =
     [\<lparr>PhoneNumber = ''972501112222'', Name = ''Dana'', RSVPStatus = RSVPAccepted, RSVPDate = 12,
       InvitedDate = 9, Notes = []\<rparr>] \<and>
   drop 2 (calls (run ascii_strings example_config
      [Invite example_env ''0501112222'' ''Dana'',
       Inbound (example_env \<lparr>env_now := 12\<rparr>) (reply ''Yes, can't wait!'')] empty_world)) =
     [IsOnWhatsApp ''972501112222'',
      ClientSendMessage ''972501112222@s.whatsapp.net'' (accept_message example_config)]"
  by code_simp

text \<open>
  C2, as stated, fails: a guest who was invited and accepted sends a message with "no",
  and the record moves from Accepted to Declined.
\<close>

theorem status_transition_counterexample:
  "map RSVPStatus (guests (storage (run ascii_strings example_config
      [Invite example_env ''0501112222'' ''Dana'',
       Inbound example_env (reply ''Yes, can't wait!'')] empty_world))) = [RSVPAccepted] \<and>
   map RSVPStatus (guests (storage (run ascii_strings example_config
      [Invite example_env ''0501112222'' ''Dana'',
       Inbound example_env (reply ''Yes, can't wait!''),
       Inbound example_env (reply ''No, sorry'')] empty_world))) = [RSVPDeclined]"
  by code_simp

text \<open>
  C2 (amended): from a store whose records all have status Pending, Accepted or Declined
  (the empty store is one), every sequence of invitations and inbound messages leads to
  a store whose records all have one of these three statuses. One inbound message leaves
  every record's phone number, and its status either as it was or Accepted or Declined;
  the current status is not looked at: \<^verbatim>\<open>UpdateRSVP\<close> on a known phone number stores the
  status it is given, so Accepted to Declined and Declined to Accepted happen.
\<close>

theorem rsvp_status_transitions:
  "(statuses_valid w \<longrightarrow> statuses_valid (run lib cfg evs w)) \<and>
   list_all2 (\<lambda>g g'. PhoneNumber g' = PhoneNumber g \<and>
                RSVPStatus g' \<in> {RSVPStatus g, RSVPAccepted, RSVPDeclined})
     (guests (storage w)) (guests (storage (handleMessage (Some (HandleMessage lib cfg env)) msg w))) \<and>
   (GetGuest p s = Inr g \<longrightarrow>
      (\<exists>m. GetGuest p (snd (UpdateRSVP tnow io p status nts s)) = Inr m \<and> RSVPStatus m = status))"
proof (intro conjI impI)
  show "statuses_valid (run lib cfg evs w)" if "statuses_valid w"
    using that by (rule run_valid)
  show "list_all2 (\<lambda>g g'. PhoneNumber g' = PhoneNumber g \<and>
                RSVPStatus g' \<in> {RSVPStatus g, RSVPAccepted, RSVPDeclined})
     (guests (storage w)) (guests (storage (handleMessage (Some (HandleMessage lib cfg env)) msg w)))"
    by (rule handleMessage_rel)
  show "\<exists>m. GetGuest p (snd (UpdateRSVP tnow io p status nts s)) = Inr m \<and> RSVPStatus m = status"
    if "GetGuest p s = Inr g"
    using UpdateRSVP_get [OF that, of tnow io status nts] by simp
qed

theorem rsvp_status_transitions_witness:
  "statuses_valid empty_world \<and>
   statuses_valid (run ascii_strings example_config
      [Invite example_env ''0501112222'' ''Dana'',
       Inbound example_env (reply ''Yes, can't wait!''),
       Inbound example_env (reply ''No, sorry'')] empty_world) \<and>
   GetGuest ''972501112222'' (storage (dana_world RSVPAccepted)) = Inr (dana RSVPAccepted) \<and>
   (\<exists>m. GetGuest ''972501112222''
          (snd (UpdateRSVP 9 WriteOk ''972501112222'' RSVPDeclined [] (storage (dana_world RSVPAccepted)))) =
        Inr m \<and> RSVPStatus m = RSVPDeclined)"
proof -
  have a: "statuses_valid empty_world"
    by (simp add: statuses_valid_def empty_world_def)
  have b: "GetGuest ''972501112222'' (storage (dana_world RSVPAccepted)) = Inr (dana RSVPAccepted)"
    by (simp add: GetGuest_def dana_world_def dana_def)
  from a b
    rsvp_status_transitions [where w = empty_world and lib = ascii_strings and
      cfg = example_config and
      evs = "[Invite example_env ''0501112222'' ''Dana'',
              Inbound example_env (reply ''Yes, can't wait!''),
              Inbound example_env (reply ''No, sorry'')]" and
      p = "''972501112222''" and s = "storage (dana_world RSVPAccepted)" and
      g = "dana RSVPAccepted" and tnow = 9 and io = WriteOk and status = RSVPDeclined and nts = "[]"]
  show ?thesis
    by blast
qed

subsection \<open>Classification\<close>

lemma containsAny_filter:
  "length (filter (Contains t) ks) = 1 \<Longrightarrow> containsAny t ks"
proof -
  assume "length (filter (Contains t) ks) = 1"
  then have "filter (Contains t) ks \<noteq> []"
    by auto
  then have "\<exists>k\<in>set ks. Contains t k"
    by (simp add: filter_empty_conv)
  then show ?thesis
    by (simp add: containsAny_iff)
qed

text \<open>
  C5: a lower-cased, trimmed text with exactly one affirmative keyword and no negative
  one is classified as Accepted; with exactly one negative keyword and no affirmative
  one as Declined; with no keyword of either list it is not recognised, and then
  \<^verbatim>\<open>HandleMessage\<close> returns without an error, with the store and the calls to the
  messaging service as they were. The text is the result of the library's \<^verbatim>\<open>ToLower\<close>
  and \<^verbatim>\<open>TrimSpace\<close>, whatever these functions are.
\<close>

theorem rsvp_classification:
  "(length (filter (Contains t) accept_keywords) = 1 \<and>
      (\<forall>k\<in>set decline_keywords. \<not> Contains t k)
      \<longrightarrow> rsvpResponse cfg t = Some (RSVPAccepted, accept_message cfg)) \<and>
   (length (filter (Contains t) decline_keywords) = 1 \<and>
      (\<forall>k\<in>set accept_keywords. \<not> Contains t k)
      \<longrightarrow> rsvpResponse cfg t = Some (RSVPDeclined, decline_message cfg)) \<and>
   ((\<forall>k\<in>set (accept_keywords @ decline_keywords). \<not> Contains t k)
      \<longrightarrow> rsvpResponse cfg t = None) \<and>
   ((\<forall>k\<in>set (accept_keywords @ decline_keywords).
        \<not> Contains (ToLower lib (TrimSpace lib (GetConversation (Message msg)))) k)
      \<longrightarrow> HandleMessage lib cfg env msg w = (None, w))"
proof (intro conjI impI)
  show "rsvpResponse cfg t = Some (RSVPAccepted, accept_message cfg)"
    if "length (filter (Contains t) accept_keywords) = 1 \<and>
        (\<forall>k\<in>set decline_keywords. \<not> Contains t k)"
    using that by (simp add: rsvpResponse_def containsAny_filter)
  show "rsvpResponse cfg t = Some (RSVPDeclined, decline_message cfg)"
    if "length (filter (Contains t) decline_keywords) = 1 \<and>
        (\<forall>k\<in>set accept_keywords. \<not> Contains t k)"
    using that by (simp add: rsvpResponse_def containsAny_filter) (simp add: containsAny_iff)
  show none: "rsvpResponse cfg u = None"
    if "\<forall>k\<in>set (accept_keywords @ decline_keywords). \<not> Contains u k" for u
    using that by (simp add: rsvpResponse_def containsAny_iff)
  show "HandleMessage lib cfg env msg w = (None, w)"
    if "\<forall>k\<in>set (accept_keywords @ decline_keywords).
          \<not> Contains (ToLower lib (TrimSpace lib (GetConversation (Message msg)))) k"
    using none [OF that] by (rule HandleMessage_unrecognized)
qed

theorem rsvp_classification_witness:
  "rsvpResponse example_config ''yes'' = Some (RSVPAccepted, accept_message example_config) \<and>
   rsvpResponse example_config ''no'' = Some (RSVPDeclined, decline_message example_config) \<and>
   rsvpResponse example_config ''maybe'' = None \<and>
   HandleMessage ascii_strings example_config example_env (reply '' Maybe later '') (dana_world RSVPPending) =
     (None, dana_world RSVPPending)"
proof -
  have a: "length (filter (Contains ''yes'') accept_keywords) = 1 \<and>
      (\<forall>k\<in>set decline_keywords. \<not> Contains ''yes'' k)"
    by code_simp
  have b: "length (filter (Contains ''no'') decline_keywords) = 1 \<and>
      (\<forall>k\<in>set accept_keywords. \<not> Contains ''no'' k)"
    by code_simp
  have c: "\<forall>k\<in>set (accept_keywords @ decline_keywords). \<not> Contains ''maybe'' k"
    by code_simp
  have d: "\<forall>k\<in>set (accept_keywords @ decline_keywords).
      \<not> Contains (ToLower ascii_strings (TrimSpace ascii_strings (GetConversation (Message (reply '' Maybe later ''))))) k"
    by code_simp
  from a b c d
    rsvp_classification [where t = "''yes''" and cfg = example_config]
    rsvp_classification [where t = "''no''" and cfg = example_config]
    rsvp_classification [where t = "''maybe''" and cfg = example_config and lib = ascii_strings
      and msg = "reply '' Maybe later ''" and env = example_env and w = "dana_world RSVPPending"]
  show ?thesis
    by blast
qed

subsection \<open>Messages that are ignored\<close>

text \<open>
  C7, as stated, fails: the handler looks the sender up under the number it extracts
  itself, not under the canonicalized one. After inviting \<open>0001234567\<close> the store has the
  key \<open>97201234567\<close>. A message from \<open>97201234567@s.whatsapp.net\<close> has the canonicalized
  number \<open>9721234567\<close>, which has no record; the handler finds the record all the same,
  sets it to Accepted and sends the confirmation.
\<close>

theorem HandleMessage_canonical_sender_counterexample:
  "map PhoneNumber (guests (storage
      (run ascii_strings example_config [Invite example_env ''0001234567'' ''Dana''] empty_world))) =
     [''97201234567''] \<and>
   NormalizePhoneNumber (before_at ''97201234567@s.whatsapp.net'') = ''9721234567'' \<and>
   GetGuest ''9721234567'' (storage
      (run ascii_strings example_config [Invite example_env ''0001234567'' ''Dana''] empty_world)) =
     Inl GuestNotFound \<and>
   map RSVPStatus (guests (storage (snd (HandleMessage ascii_strings example_config example_env
      ((reply ''yes'') \<lparr>Info_Sender := ''97201234567@s.whatsapp.net''\<rparr>)
      (run ascii_strings example_config [Invite example_env ''0001234567'' ''Dana''] empty_world))))) =
     [RSVPAccepted] \<and>
   length (calls (snd (HandleMessage ascii_strings example_config example_env
      ((reply ''yes'') \<lparr>Info_Sender := ''97201234567@s.whatsapp.net''\<rparr>)
      (run ascii_strings example_config [Invite example_env ''0001234567'' ''Dana''] empty_world)))) =
     length (calls
      (run ascii_strings example_config [Invite example_env ''0001234567'' ''Dana''] empty_world)) + 2"
  by code_simp

text \<open>
  C7 (amended): when no record of the store has the phone number that the handler
  extracts from the sender (the sender up to the \<^verbatim>\<open>@\<close>, without \<^verbatim>\<open>+\<close> and spaces, the rules
  for the country code not applied), the message changes nothing: no error, the same
  store, no call to the messaging service; the same holds for the event entering through
  \<^verbatim>\<open>Service.handleMessage\<close>.
\<close>

theorem HandleMessage_unknown_sender_noop:
  assumes "\<forall>g\<in>set (guests (storage w)). PhoneNumber g \<noteq> senderPhoneNumber (Info_Sender msg)"
  shows "HandleMessage lib cfg env msg w = (None, w) \<and>
         handleMessage (Some (HandleMessage lib cfg env)) msg w = w"
  using HandleMessage_unknown_sender [OF assms] by (simp add: handleMessage_def)

theorem HandleMessage_unknown_sender_noop_witness:
  "list_all (\<lambda>g. PhoneNumber g \<noteq>
        senderPhoneNumber (Info_Sender ((reply ''yes'') \<lparr>Info_Sender := ''+972 509999999@s.whatsapp.net''\<rparr>)))
      (guests (storage (dana_world RSVPPending))) \<and>
   guests (storage (dana_world RSVPPending)) = [dana RSVPPending] \<and>
   HandleMessage ascii_strings example_config example_env
       ((reply ''yes'') \<lparr>Info_Sender := ''+972 509999999@s.whatsapp.net''\<rparr>)
       (dana_world RSVPPending) = (None, dana_world RSVPPending) \<and>
   handleMessage (Some (HandleMessage ascii_strings example_config example_env))
       ((reply ''yes'') \<lparr>Info_Sender := ''+972 509999999@s.whatsapp.net''\<rparr>)
       (dana_world RSVPPending) = dana_world RSVPPending"
proof -
  have a: "\<forall>g\<in>set (guests (storage (dana_world RSVPPending))). PhoneNumber g \<noteq>
      senderPhoneNumber (Info_Sender ((reply ''yes'') \<lparr>Info_Sender := ''+972 509999999@s.whatsapp.net''\<rparr>))"
    by (simp add: dana_world_def dana_def senderPhoneNumber_def before_at_def ReplaceAll_del_def)
  have b: "guests (storage (dana_world RSVPPending)) = [dana RSVPPending]"
    by (simp add: dana_world_def)
  from HandleMessage_unknown_sender_noop [OF a] a b show ?thesis
    by (simp add: list_all_iff)
qed

text \<open>
  C10: a message flagged \<^verbatim>\<open>IsFromMe\<close> leaves the state as it is whatever handler is
  registered, so the handler's result is not used; a message with a nil body or with an
  empty conversation text makes \<^verbatim>\<open>HandleMessage\<close> return at once, with the store and
  the calls to the messaging service unchanged.
\<close>

theorem own_and_empty_messages_dropped:
  "(Info_IsFromMe msg \<longrightarrow> handleMessage h msg w = w) \<and>
   (Message msg = None \<or> GetConversation (Message msg) = []
      \<longrightarrow> HandleMessage lib cfg env msg w = (None, w) \<and>
          handleMessage (Some (HandleMessage lib cfg env)) msg w = w)"
proof (intro conjI impI)
  show "handleMessage h msg w = w" if "Info_IsFromMe msg"
    using that by (simp add: handleMessage_def)
  assume e: "Message msg = None \<or> GetConversation (Message msg) = []"
  then show "HandleMessage lib cfg env msg w = (None, w)"
    by (rule HandleMessage_empty)
  then show "handleMessage (Some (HandleMessage lib cfg env)) msg w = w"
    by (simp add: handleMessage_def)
qed

theorem own_and_empty_messages_dropped_witness:
  "Info_IsFromMe ((reply ''yes'') \<lparr>Info_IsFromMe := True\<rparr>) \<and>
   handleMessage (Some (HandleMessage ascii_strings example_config example_env))
       ((reply ''yes'') \<lparr>Info_IsFromMe := True\<rparr>) (dana_world RSVPPending) =
     dana_world RSVPPending \<and>
   Message ((reply ''yes'') \<lparr>Message := None\<rparr>) = None \<and>
   HandleMessage ascii_strings example_config example_env ((reply ''yes'') \<lparr>Message := None\<rparr>)
       (dana_world RSVPPending) = (None, dana_world RSVPPending) \<and>
   GetConversation (Message (reply [])) = [] \<and>
   HandleMessage ascii_strings example_config example_env (reply []) (dana_world RSVPPending) =
     (None, dana_world RSVPPending)"
proof -
  have a: "Info_IsFromMe ((reply ''yes'') \<lparr>Info_IsFromMe := True\<rparr>)"
    by simp
  have b: "Message ((reply ''yes'') \<lparr>Message := None\<rparr>) = None"
    by simp
  have c: "GetConversation (Message (reply [])) = []"
    by (simp add: GetConversation_def reply_def)
  from a b c
    own_and_empty_messages_dropped [where msg = "(reply ''yes'') \<lparr>Info_IsFromMe := True\<rparr>"
      and h = "Some (HandleMessage ascii_strings example_config example_env)"
      and w = "dana_world RSVPPending"]
    own_and_empty_messages_dropped [where msg = "(reply ''yes'') \<lparr>Message := None\<rparr>"
      and w = "dana_world RSVPPending" and lib = ascii_strings and cfg = example_config
      and env = example_env]
    own_and_empty_messages_dropped [where msg = "reply []" and w = "dana_world RSVPPending"
      and lib = ascii_strings and cfg = example_config and env = example_env]
  show ?thesis
    by blast
qed

end
